theory Spec2Isabelle
  imports Main "HOL-Library.Word"
begin

section \<open>JavaScript strings\<close>

text \<open>
  A JavaScript string is a sequence of 16-bit UTF-16 code units. The literals of the
  sources are ASCII, so a literal is written as an Isabelle string and embedded with
  \<open>js\<close>.
\<close>

type_synonym code_unit = "16 word"
type_synonym jsstring = "code_unit list"

definition js :: "string \<Rightarrow> jsstring" where
  "js s = map of_char s"

text \<open>
  \<open>String.prototype.trim\<close> (ECMA-262, TrimString) removes the code units of
  WhiteSpace and LineTerminator from both ends: TAB, LF, VT, FF, CR, SP, NBSP, the space
  separators of Unicode U+1680, U+2000..U+200A, U+202F, U+205F, U+3000, the line and
  paragraph separators U+2028 and U+2029, and U+FEFF.
\<close>

definition is_whitespace :: "code_unit \<Rightarrow> bool" where
  "is_whitespace c =
     (c = 0x0009 \<or> c = 0x000A \<or> c = 0x000B \<or> c = 0x000C \<or> c = 0x000D \<or>
      c = 0x0020 \<or> c = 0x00A0 \<or> c = 0x1680 \<or>
      c = 0x2000 \<or> c = 0x2001 \<or> c = 0x2002 \<or> c = 0x2003 \<or> c = 0x2004 \<or>
      c = 0x2005 \<or> c = 0x2006 \<or> c = 0x2007 \<or> c = 0x2008 \<or> c = 0x2009 \<or>
      c = 0x200A \<or> c = 0x2028 \<or> c = 0x2029 \<or> c = 0x202F \<or> c = 0x205F \<or>
      c = 0x3000 \<or> c = 0xFEFF)"

definition trim :: "jsstring \<Rightarrow> jsstring" where
  "trim s = rev (dropWhile is_whitespace (rev (dropWhile is_whitespace s)))"

text \<open>\<open>Array.prototype.join\<close>: the elements, with the separator between neighbours.\<close>

fun join :: "jsstring \<Rightarrow> jsstring list \<Rightarrow> jsstring" where
  "join sep [] = []"
| "join sep [x] = x"
| "join sep (x # y # ys) = x @ sep @ join sep (y # ys)"

section \<open>The quiz of the recommendation page\<close>

datatype question_type = Choice (options: "jsstring list") | Text (placeholder: jsstring)

record question =
  qid :: jsstring
  prompt :: jsstring
  qtype :: question_type

definition QUESTIONS :: "question list" where
  "QUESTIONS = [
    \<lparr>qid = js ''enjoyable'',
     prompt = js ''What would you find most enjoyable in a book?'',
     qtype = Choice [
       js ''An adventure story that takes a dark turn'',
       js ''An epic drama with a hero whose life you follow from beginning to end'',
       js ''A compulsive plot with sophisticated twists'',
       js ''A sharply observed portrait of the relationship between two young lovers'',
       js ''A complex story about the secrets kept in a small community'',
       js ''A classic coming-of-age story with a protagonist who struggles with mental health'',
       js ''An eerie, nightmarish tale of a Britain gripped by an unnamed oppressive political movement'',
       js ''A sensitive, complicated character looks back on life and what might have been'']\<rparr>,
    \<lparr>qid = js ''holiday_1'',
     prompt = js ''Given the chance, how would you choose to spend your holidays this year?'',
     qtype = Choice [
       js ''On an island somewhere tropical with plenty of jungle to explore'',
       js ''On a road trip across the USA, racing along a highway in a convertible'',
       js ''At a faded luxury hotel somewhere in Europe - a modern day Grand Budapest Hotel'',
       js ''Interrailing around southern Europe, and not just to the tourist hotspots'',
       js ''Somewhere rural, with a village pub and plenty of paths along which to hike'',
       js ''In New York, with a hotel just near Central Park'',
       js ''In an English seaside town, with cream teas and windswept beaches'',
       js ''In the English countryside in high summer'']\<rparr>,
    \<lparr>qid = js ''dinner_party'',
     prompt = js ''Who would be the first name on the invitation to your fantasy dinner party?'',
     qtype = Choice [
       js ''Stephen King'', js ''David Attenborough'', js ''Charles Dickens'',
       js ''Ali Smith'', js ''Madonna'', js ''James Baldwin'', js ''Audre Lorde'',
       js ''Maria Callas'', js ''Mike Tyson'', js ''Tom Brady'', js ''Shanon Sharpe'',
       js ''Skip Bayless'', js ''Sabrina Carpenter'', js ''Taylor Swift'',
       js ''Lebron James'', js ''Terrel Owens'', js ''Chad Ochocinco'']\<rparr>,
    \<lparr>qid = js ''resolution'',
     prompt = js ''What did you resolve to change this year?'',
     qtype = Choice [
       js ''To spend more time appreciating the magic of the everyday'',
       js ''To make the world a better place in whatever small way I can'',
       js ''To get out into the world, travel and have some fun'',
       js ''To learn more about forgotten histories and political activism'',
       js ''To make time to read my subscription to The New Yorker'',
       js ''To keep up with current affairs'',
       js ''To go on an adventure and take more risks'',
       js ''To head to the library more often, and to read more books'']\<rparr>,
    \<lparr>qid = js ''writing_style'',
     prompt = js ''Which type of writing most appeals to you?'',
     qtype = Choice [
       js ''A pacy narrative with twists and turns'',
       js ''Heartbreaking prose and a story driven by character development'',
       js ''All about the action: a fast-moving plot above all'',
       js ''Prose that is rooted in the twenty-first century and how we live our lives'',
       js ''Haunting and restrained literary prose'',
       js ''Conversational, informal first-person narrative'',
       js ''Strange, haunting and otherworldly, conjured with few words'',
       js ''First person narrative - but can you trust the narrator?'']\<rparr>,
    \<lparr>qid = js ''fiction_pref'',
     prompt = js ''Do you prefer fiction or nonfiction?'',
     qtype = Choice [js ''Fiction'', js ''Nonfiction'']\<rparr>,
    \<lparr>qid = js ''genre'',
     prompt = js ''Which fiction genre are you looking to read next?'',
     qtype = Choice [
       js ''General Fiction'', js ''Historical Fiction'', js ''Romance'',
       js ''Mystery & Thriller'', js ''Science Fiction & Fantasy'']\<rparr>,
    \<lparr>qid = js ''last_book'',
     prompt = js ''Tell us the title of the last book you loved'',
     qtype = Text (js ''Type the title here'')\<rparr>,
    \<lparr>qid = js ''length_pref'',
     prompt = js ''Do you prefer long reads or short books?'',
     qtype = Choice [js ''Long reads'', js ''Short reads'', js ''No preference'']\<rparr>,
    \<lparr>qid = js ''classic_pref'',
     prompt = js ''Do you like classic or contemporary fiction?'',
     qtype = Choice [js ''Classic'', js ''Contemporary'']\<rparr>,
    \<lparr>qid = js ''care_about'',
     prompt = js ''When reading you care most about:'',
     qtype = Choice [
       js ''The characters'', js ''The dialogue'', js ''The romance'',
       js ''Learning new things'', js ''Escaping to a new world'',
       js ''Switching off'']\<rparr>]"

text \<open>
  \<open>answers[index] || ""\<close>: an index past the end of the array reads \<open>undefined\<close>,
  which \<open>||\<close> replaces by the empty string.
\<close>

definition answer_at :: "jsstring list \<Rightarrow> nat \<Rightarrow> jsstring" where
  "answer_at answers i = (if i < length answers then answers ! i else [])"

text \<open>
  \<open>buildQuery\<close>: \<open>QUESTIONS.map((question, index) => ...)\<close> yields, per question, the
  empty string for a blank answer and \<open>`${question.prompt} ${answer}`\<close> otherwise;
  \<open>.filter(Boolean)\<close> keeps the non-empty strings; \<open>.join(" . ")\<close> concatenates them.
\<close>

definition query_part :: "jsstring list \<Rightarrow> question \<times> nat \<Rightarrow> jsstring" where
  "query_part answers qi =
     (let answer = trim (answer_at answers (snd qi))
      in if answer = [] then [] else prompt (fst qi) @ js '' '' @ answer)"

definition buildQuery :: "jsstring list \<Rightarrow> jsstring" where
  "buildQuery answers =
     join (js '' . '')
       (filter (\<lambda>s. s \<noteq> [])
          (map (query_part answers) (zip QUESTIONS [0 ..< length QUESTIONS])))"


section \<open>Requests sent to the backend\<close>

text \<open>
  Every \<open>fetch\<close> of the sources goes to \<open>API_BASE\<close> followed by one of three paths:
  \<open>/api/reviews\<close>, \<open>/api/reviews/${reviewId}\<close> and \<open>/api/recommendations\<close>. The body,
  when there is one, is \<open>JSON.stringify\<close> of an object literal, kept here as the
  object itself.
\<close>

record payload =
  p_author :: jsstring
  p_title :: jsstring
  p_content :: jsstring
  p_score :: "int option"  \<comment> \<open>the number as \<open>JSON.stringify\<close> writes it; \<open>None\<close> is \<open>null\<close>\<close>
  p_image :: "jsstring option"  \<comment> \<open>\<open>None\<close>: the object has no \<open>image\<close> property\<close>

datatype endpoint = ReviewsPath | ReviewPath int | RecommendationsPath

datatype http_method = GET | POST | DELETE

datatype body = ReviewBody payload | QueryBody jsstring

record request =
  req_method :: http_method
  endpoint :: endpoint
  headers :: "(jsstring \<times> jsstring) list"
  body :: "body option"

definition JSON_HEADERS :: "(jsstring \<times> jsstring) list" where
  "JSON_HEADERS = [(js ''Content-Type'', js ''application/json'')]"

definition recommendations_request :: "jsstring \<Rightarrow> request" where
  "recommendations_request q =
     \<lparr>req_method = POST, endpoint = RecommendationsPath, headers = JSON_HEADERS,
      body = Some (QueryBody q)\<rparr>"

section \<open>The blog page\<close>

text \<open>
  \<open>parseInt(score, 10)\<close> (ECMA-262): leading white space is skipped, one sign is read,
  then the longest prefix of decimal digits; with no digit the result is \<open>NaN\<close>.
  Otherwise the result is the Number value of the integer read: the nearest double,
  ties to the even significand, and an infinity when that is beyond the largest double.
  (Past twenty significant digits the standard lets an implementation read the further
  digits as zeros; the engines in use read them all, and so does the model.)
\<close>

datatype js_number = Num int | NaN | PosInfinity | NegInfinity

definition is_digit :: "code_unit \<Rightarrow> bool" where
  "is_digit c = (0x30 \<le> c \<and> c \<le> 0x39)"

fun digits_value :: "nat \<Rightarrow> jsstring \<Rightarrow> nat" where
  "digits_value acc [] = acc"
| "digits_value acc (c # cs) = digits_value (acc * 10 + (unat c - 48)) cs"

text \<open>The number of binary digits of a natural number.\<close>

fun bit_length :: "nat \<Rightarrow> nat" where
  "bit_length n = (if n = 0 then 0 else Suc (bit_length (n div 2)))"

declare bit_length.simps [simp del]

text \<open>
  The double nearest to a natural number: the number itself below \<open>2^53\<close>; otherwise
  its 53 leading binary digits, rounded by the digits that follow (half way goes to
  the even significand), with the same exponent. \<open>None\<close> when the rounded value
  reaches \<open>2^1024\<close>, which no double holds.
\<close>

definition nearest_double :: "nat \<Rightarrow> nat option" where
  "nearest_double n =
     (if n < 2 ^ 53 then Some n
      else let e = bit_length n - 53;
               q = n div 2 ^ e;
               r = n mod 2 ^ e;
               half = 2 ^ (e - 1);
               m = (if half < r \<or> (r = half \<and> odd q) then q + 1 else q)
           in if m * 2 ^ e < 2 ^ 1024 then Some (m * 2 ^ e) else None)"

definition number_value :: "bool \<Rightarrow> nat \<Rightarrow> js_number" where
  "number_value negative n =
     (case nearest_double n of
        None \<Rightarrow> if negative then NegInfinity else PosInfinity
      | Some v \<Rightarrow> Num (if negative then - int v else int v))"

definition parseInt10 :: "jsstring \<Rightarrow> js_number" where
  "parseInt10 s =
     (let S = dropWhile is_whitespace s;
          negative = (S \<noteq> [] \<and> hd S = 0x2D);
          S' = (if S \<noteq> [] \<and> (hd S = 0x2B \<or> hd S = 0x2D) then tl S else S);
          Z = takeWhile is_digit S'
      in if Z = [] then NaN else number_value negative (digits_value 0 Z))"

text \<open>
  The \<open>score\<close> state holds the number \<open>5\<close> (\<open>useState(5)\<close>, \<open>setScore(5)\<close>) or the
  string of the number input (\<open>setScore(e.target.value)\<close>). \<open>parseInt\<close> of a number
  first converts it to its decimal string; for the integers stored here that reads back
  the same integer.
\<close>

datatype score_state = ScoreNumber int | ScoreString jsstring

fun parseInt :: "score_state \<Rightarrow> js_number" where
  "parseInt (ScoreNumber n) = Num n"
| "parseInt (ScoreString s) = parseInt10 s"

text \<open>
  \<open>JSON.stringify\<close> writes a finite number as it is and \<open>NaN\<close> and the infinities as
  \<open>null\<close>.
\<close>

definition json_number :: "js_number \<Rightarrow> int option" where
  "json_number x = (case x of Num n \<Rightarrow> Some n | _ \<Rightarrow> None)"

datatype image_file = ImageFile (file_name: jsstring) (file_bytes: "8 word list")

record review =
  review_id :: int
  review_title :: jsstring
  review_author :: jsstring
  review_score :: int
  cover_url :: "jsstring option"
  review_content :: jsstring

text \<open>
  The state of \<open>BlogPage\<close>. \<open>docs/app.js\<close> has the first seven fields; the second
  source file adds \<open>loadError\<close>. \<open>handleSubmit\<close> is the same text in both and
  touches only the common fields, so it is defined on the extensible record. The pages
  each have a state called \<open>message\<close>; the blog page's is \<open>blog_message\<close> here.
\<close>

record blog_page =
  reviews :: "review list"
  author :: jsstring
  title :: jsstring
  content :: jsstring
  score :: score_state
  imageFile :: "image_file option"
  blog_message :: jsstring

record blog_page_loading = blog_page +
  loadError :: jsstring

definition FILL_IN_MESSAGE :: jsstring where
  "FILL_IN_MESSAGE = js ''Please fill in all required fields.''"

text \<open>
  \<open>sendData(imageBase64)\<close>: the image is added to the payload when the argument is
  truthy (neither \<open>null\<close> nor the empty string), and the payload is posted.
\<close>

definition sendData :: "payload \<Rightarrow> jsstring option \<Rightarrow> request" where
  "sendData p imageBase64 =
     \<lparr>req_method = POST, endpoint = ReviewsPath, headers = JSON_HEADERS,
      body = Some (ReviewBody
        (case imageBase64 of
           None \<Rightarrow> p
         | Some i \<Rightarrow> if i = [] then p else p\<lparr>p_image := Some i\<rparr>))\<rparr>"

text \<open>
  What \<open>handleSubmit\<close> starts before it returns: nothing, the request, or the reading
  of the image file, whose \<open>onloadend\<close> calls \<open>sendData(reader.result)\<close>.
\<close>

datatype submit_effect = NoRequest | Fetch request | ReadAsDataURL image_file payload

definition onloadend :: "payload \<Rightarrow> jsstring option \<Rightarrow> request" where
  "onloadend p result = sendData p result"

definition handleSubmit :: "'a blog_page_scheme \<Rightarrow> 'a blog_page_scheme \<times> submit_effect" where
  "handleSubmit s =
     (let s1 = s\<lparr>blog_message := []\<rparr>;
          p = \<lparr>p_author = trim (author s), p_title = trim (title s),
               p_content = trim (content s), p_score = json_number (parseInt (score s)),
               p_image = None\<rparr>
      in if p_author p = [] \<or> p_title p = [] \<or> p_content p = []
         then (s1\<lparr>blog_message := FILL_IN_MESSAGE\<rparr>, NoRequest)
         else (case imageFile s of
                 Some f \<Rightarrow> (s1, ReadAsDataURL f p)
               | None \<Rightarrow> (s1, Fetch (sendData p None))))"

text \<open>
  \<open>handleDelete(reviewId)\<close>: \<open>window.prompt\<close> returns \<open>null\<close> when cancelled (\<open>None\<close>)
  and the text otherwise; \<open>window.confirm\<close> returns a boolean. Both are inputs of the
  model.
\<close>

definition handleDelete ::
  "int \<Rightarrow> jsstring option \<Rightarrow> bool \<Rightarrow> 'a blog_page_scheme \<Rightarrow> 'a blog_page_scheme \<times> request option" where
  "handleDelete reviewId prompted confirmed s =
     (case prompted of
        None \<Rightarrow> (s, None)
      | Some passcode \<Rightarrow>
          if passcode = [] then (s, None)
          else if \<not> confirmed then (s, None)
          else (s, Some \<lparr>req_method = DELETE, endpoint = ReviewPath reviewId,
                          headers = [(js ''X-Delete-Passcode'', passcode)],
                          body = None\<rparr>))"

section \<open>The recommendation page of \<open>docs/app.js\<close>\<close>

record global_rec =
  g_title :: jsstring
  g_author :: jsstring
  g_year :: int

record local_rec =
  l_title :: jsstring
  l_author :: jsstring




section \<open>The recommendation page with the quiz\<close>

record quiz_page =
  step :: nat
  answers :: "jsstring list"
  globalRec :: "global_rec option"
  localRec :: "local_rec option"
  message :: jsstring
  isSubmitting :: bool
  showResults :: bool

definition total :: nat where
  "total = length QUESTIONS"

definition initial_page :: quiz_page where
  "initial_page =
     \<lparr>step = 0, answers = map (\<lambda>_. []) QUESTIONS, globalRec = None, localRec = None,
      message = [], isSubmitting = False, showResults = False\<rparr>"

text \<open>
  \<open>next[step] = value\<close>: JavaScript extends the array when the index is past its end;
  the holes read as \<open>undefined\<close>, which every reader of \<open>answers\<close> turns into the empty
  string (\<open>answers[i] || ""\<close>), so the holes are filled with empty strings.
\<close>

definition set_index :: "jsstring list \<Rightarrow> nat \<Rightarrow> jsstring \<Rightarrow> jsstring list" where
  "set_index xs i v =
     (if i < length xs then xs[i := v] else xs @ replicate (i - length xs) [] @ [v])"

definition updateAnswer :: "jsstring \<Rightarrow> quiz_page \<Rightarrow> quiz_page" where
  "updateAnswer v s =
     s\<lparr>answers := set_index (answers s) (step s) v,
       globalRec := None, localRec := None, showResults := False,
       message := (if message s \<noteq> [] then [] else message s)\<rparr>"

definition canProceed :: "quiz_page \<Rightarrow> bool" where
  "canProceed s =
     (if step s < length QUESTIONS
      then (case qtype (QUESTIONS ! step s) of
              Text _ \<Rightarrow> 0 < length (trim (answer_at (answers s) (step s)))
            | Choice _ \<Rightarrow> answer_at (answers s) (step s) \<noteq> [])
      else False)"

definition ANSWER_QUESTIONS_MESSAGE :: jsstring where
  "ANSWER_QUESTIONS_MESSAGE = js ''Please answer the questions before submitting.''"

definition WAKING_UP_MESSAGE :: jsstring where
  "WAKING_UP_MESSAGE = js ''Backend may be waking up. If you're using Render's free tier, wait 30-60 seconds and try again.''"

definition ENTER_RESPONSE_MESSAGE :: jsstring where
  "ENTER_RESPONSE_MESSAGE = js ''Please enter a response to continue.''"

definition CHOOSE_OPTION_MESSAGE :: jsstring where
  "CHOOSE_OPTION_MESSAGE = js ''Please choose an option to continue.''"

definition submitRecommendations :: "quiz_page \<Rightarrow> quiz_page \<times> request option" where
  "submitRecommendations s =
     (if isSubmitting s then (s, None)
      else let queryText = buildQuery (answers s)
           in if queryText = [] then (s\<lparr>message := ANSWER_QUESTIONS_MESSAGE\<rparr>, None)
              else (s\<lparr>isSubmitting := True, message := [], globalRec := None,
                      localRec := None, showResults := False\<rparr>,
                    Some (recommendations_request queryText)))"

definition is_text_question :: "quiz_page \<Rightarrow> bool" where
  "is_text_question s =
     (step s < length QUESTIONS \<and>
      (case qtype (QUESTIONS ! step s) of Text _ \<Rightarrow> True | Choice _ \<Rightarrow> False))"

definition goNext :: "quiz_page \<Rightarrow> quiz_page \<times> request option" where
  "goNext s =
     (if \<not> canProceed s
      then (s\<lparr>message := (if is_text_question s then ENTER_RESPONSE_MESSAGE
                            else CHOOSE_OPTION_MESSAGE)\<rparr>, None)
      else if step s < total - 1 then (s\<lparr>message := [], step := step s + 1\<rparr>, None)
      else submitRecommendations (s\<lparr>message := []\<rparr>))"

definition goBack :: "quiz_page \<Rightarrow> quiz_page" where
  "goBack s = (if 0 < step s then s\<lparr>step := step s - 1, message := []\<rparr> else s)"




text \<open>
  How the request settles. \<open>Resolved g l\<close>: the response parsed to an object whose
  \<open>global\<close> and \<open>local\<close> are \<open>g\<close> and \<open>l\<close> (\<open>None\<close> for \<open>null\<close> or a missing
  property); the \<open>then\<close> callback runs. \<open>Rejected\<close>: the request or the parsing failed;
  the \<open>catch\<close> callback runs. The \<open>finally\<close> callback runs after either.
\<close>

datatype response = Resolved "global_rec option" "local_rec option" | Rejected

definition settled :: "response \<Rightarrow> quiz_page \<Rightarrow> quiz_page" where
  "settled r s =
     (case r of
        Resolved g l \<Rightarrow> s\<lparr>globalRec := g, localRec := l, showResults := True\<rparr>
      | Rejected \<Rightarrow> s\<lparr>message := WAKING_UP_MESSAGE, showResults := False\<rparr>)
     \<lparr>isSubmitting := False\<rparr>"

subsection \<open>What the page shows\<close>

datatype global_view = GlobalMatch global_rec | NoGlobalAvailable

datatype our_view = OurMatch local_rec | NotEnoughData

record results_view =
  global_part :: global_view
  our_part :: our_view
  warning :: bool

definition NOT_ENOUGH_DATA_TEXT :: jsstring where
  "NOT_ENOUGH_DATA_TEXT =
     js ''Sorry our site does not currently have enough data for Our Recommendation.''"

definition our_text :: "our_view \<Rightarrow> jsstring" where
  "our_text v =
     (case v of
        OurMatch r \<Rightarrow> l_title r @ js '' by '' @ l_author r
      | NotEnoughData \<Rightarrow> NOT_ENOUGH_DATA_TEXT)"

text \<open>The block under \<open>showResults &&\<close>; \<open>None\<close> when it is not rendered.\<close>

definition render_results :: "quiz_page \<Rightarrow> results_view option" where
  "render_results s =
     (if showResults s
      then Some \<lparr>global_part = (case globalRec s of Some g \<Rightarrow> GlobalMatch g
                                 | None \<Rightarrow> NoGlobalAvailable),
                 our_part = (case localRec s of Some l \<Rightarrow> OurMatch l
                              | None \<Rightarrow> NotEnoughData),
                 warning = (globalRec s = None \<and> localRec s = None)\<rparr>
      else None)"

subsection \<open>The page with its requests in flight\<close>

text \<open>
  The page together with the requests it has sent that have not settled yet, and the
  request whose response filled the recommendations last. An event is a call of one of
  the page's handlers by the user interface, or the settling of a request in flight.
  \<open>GoNext\<close> is taken in every state, also where the submit button is disabled: that
  only adds runs.
\<close>

record world =
  page :: quiz_page
  in_flight :: "request list"
  shown_for :: "request option"

datatype event = UpdateAnswer jsstring | GoNext | GoBack | Settle nat response

definition initial_world :: world where
  "initial_world = \<lparr>page = initial_page, in_flight = [], shown_for = None\<rparr>"

definition fire :: "event \<Rightarrow> world \<Rightarrow> world option" where
  "fire e w =
     (case e of
        UpdateAnswer v \<Rightarrow> Some (w\<lparr>page := updateAnswer v (page w)\<rparr>)
      | GoNext \<Rightarrow>
          Some (w\<lparr>page := fst (goNext (page w)),
                   in_flight := in_flight w @
                     (case snd (goNext (page w)) of None \<Rightarrow> [] | Some r \<Rightarrow> [r])\<rparr>)
      | GoBack \<Rightarrow> Some (w\<lparr>page := goBack (page w)\<rparr>)
      | Settle k r \<Rightarrow>
          if k < length (in_flight w)
          then Some (w\<lparr>page := settled r (page w),
                        in_flight := take k (in_flight w) @ drop (Suc k) (in_flight w),
                        shown_for := (case r of Resolved _ _ \<Rightarrow> Some (in_flight w ! k)
                                      | Rejected \<Rightarrow> shown_for w)\<rparr>)
          else None)"

fun run :: "event list \<Rightarrow> world \<Rightarrow> world option" where
  "run [] w = Some w"
| "run (e # es) w = (case fire e w of None \<Rightarrow> None | Some w' \<Rightarrow> run es w')"

inductive reachable :: "world \<Rightarrow> bool" where
  start: "reachable initial_world"
| after: "reachable w \<Longrightarrow> fire e w = Some w' \<Longrightarrow> reachable w'"

subsection \<open>The request a submission ends in\<close>

text \<open>
  The request \<open>handleSubmit\<close> sends, at once or when the file reader has finished
  with \<open>reader.result\<close> (a data URL, or \<open>null\<close> after a failed read); \<open>None\<close> when
  it sends none.
\<close>

definition posted :: "submit_effect \<Rightarrow> jsstring option \<Rightarrow> request option" where
  "posted eff reader_result =
     (case eff of
        NoRequest \<Rightarrow> None
      | Fetch r \<Rightarrow> Some r
      | ReadAsDataURL f p \<Rightarrow> Some (onloadend p reader_result))"

subsection \<open>The query in the words of its description\<close>

text \<open>
  The questions with an answer that is not blank after trimming, in question order, and
  the text \<open>prompt SPACE trimmed answer\<close> of each, joined by \<open>" . "\<close>.
\<close>

definition answered :: "jsstring list \<Rightarrow> (question \<times> nat) list" where
  "answered ans =
     filter (\<lambda>qi. trim (answer_at ans (snd qi)) \<noteq> []) (zip QUESTIONS [0 ..< length QUESTIONS])"

definition described_query :: "jsstring list \<Rightarrow> jsstring" where
  "described_query ans =
     join (js '' . '')
       (map (\<lambda>qi. prompt (fst qi) @ js '' '' @ trim (answer_at ans (snd qi))) (answered ans))"

text \<open>At most one request is in flight, and \<open>isSubmitting\<close> says whether one is.\<close>

definition one_in_flight :: "world \<Rightarrow> bool" where
  "one_in_flight w =
     (length (in_flight w) \<le> 1 \<and> (isSubmitting (page w) \<longleftrightarrow> in_flight w \<noteq> []))"

section \<open>The backend, from its specification\<close>

text \<open>
  The backend (\<open>backend/server.py\<close> and its recommendation engine) is not among the
  source files; the two operations below follow the specification.
\<close>

datatype error = ValidationError | AuthError | NotFoundError | EmptyQueryError

record stored_review =
  sr_id :: nat
  sr_author :: jsstring
  sr_title :: jsstring
  sr_content :: jsstring
  sr_score :: int
  sr_cover_image :: "jsstring option"
  sr_created_at :: nat

record review_store =
  rows :: "stored_review list"
  next_id :: nat



record recommendation =
  rec_global :: "global_rec option"
  rec_local :: "local_rec option"

text \<open>
  Modelled from the spec: the Recommendation Engine's \<open>recommend\<close>, which is backend
  code missing from the sources. It "fails with EmptyQueryError if query_text, after
  trimming, is empty", and a side is \<open>null\<close> "if the corpus is unavailable (catalog not
  loaded, or local corpus below minimum review threshold), or if the highest score is
  exactly zero". The ranking by TF-IDF weights and cosine similarity is arithmetic on
  floating-point numbers; \<open>best_global\<close> and \<open>best_local\<close> stand for it (the best match
  of the query in the catalog, and in the given reviews, if any). \<open>min_reviews\<close> is the
  configured minimum.
\<close>

definition recommend ::
  "(jsstring \<Rightarrow> global_rec option) \<Rightarrow> (jsstring \<Rightarrow> stored_review list \<Rightarrow> local_rec option) \<Rightarrow>
   nat \<Rightarrow> stored_review list \<Rightarrow> jsstring \<Rightarrow> error + recommendation" where
  "recommend best_global best_local min_reviews local_corpus query_text =
     (if trim query_text = [] then Inl EmptyQueryError
      else Inr \<lparr>rec_global = best_global query_text,
                rec_local = (if length local_corpus < min_reviews then None
                             else best_local query_text local_corpus)\<rparr>)"

text \<open>The response as the client reads it: the two sides of the result.\<close>

definition respond :: "recommendation \<Rightarrow> response" where
  "respond r = Resolved (rec_global r) (rec_local r)"

section \<open>Example inputs\<close>

definition example_form :: blog_page where
  "example_form =
     \<lparr>reviews = [], author = js '' Frank Herbert '', title = js ''Dune'',
      content = js ''  A desert epic.'', score = ScoreString (js ''9''),
      imageFile = None, blog_message = []\<rparr>"


definition example_feed :: blog_page_loading where
  "example_feed =
     \<lparr>reviews = [\<lparr>review_id = 7, review_title = js ''Dune'',
                   review_author = js ''Frank Herbert'', review_score = 9,
                   cover_url = None, review_content = js ''A desert epic.''\<rparr>],
      author = [], title = [], content = [], score = ScoreNumber 5,
      imageFile = None, blog_message = [], loadError = []\<rparr>"


text \<open>One option of each choice question, and a title typed with spaces around it.\<close>

definition example_answers :: "jsstring list" where
  "example_answers =
     [js ''A compulsive plot with sophisticated twists'',
      js ''In the English countryside in high summer'',
      js ''Ali Smith'',
      js ''To keep up with current affairs'',
      js ''Haunting and restrained literary prose'',
      js ''Fiction'',
      js ''Romance'',
      js '' Dune '',
      js ''Long reads'',
      js ''Classic'',
      js ''Switching off'']"

text \<open>
  The user answers each question and presses the button to go on; after the last answer
  the button submits.
\<close>

fun answer_all :: "jsstring list \<Rightarrow> event list" where
  "answer_all [] = []"
| "answer_all [a] = [UpdateAnswer a]"
| "answer_all (a # b # bs) = UpdateAnswer a # GoNext # answer_all (b # bs)"

definition quiz_events :: "event list" where
  "quiz_events = answer_all example_answers @ [GoNext]"

definition answered_world :: world where
  "answered_world =
     \<lparr>page = \<lparr>step = 10, answers = example_answers, globalRec = None, localRec = None,
               message = [], isSubmitting = False, showResults = False\<rparr>,
      in_flight = [], shown_for = None\<rparr>"

definition submitted_world :: world where
  "submitted_world =
     \<lparr>page = \<lparr>step = 10, answers = example_answers, globalRec = None, localRec = None,
               message = [], isSubmitting = True, showResults = False\<rparr>,
      in_flight = [recommendations_request (buildQuery example_answers)],
      shown_for = None\<rparr>"

definition example_local :: local_rec where
  "example_local = \<lparr>l_title = js ''Quiet Nights'', l_author = js ''A. Lee''\<rparr>"

definition example_global :: global_rec where
  "example_global = \<lparr>g_title = js ''Dune'', g_author = js ''Frank Herbert'', g_year = 1965\<rparr>"

text \<open>The response arrives and is shown.\<close>

definition shown_world :: world where
  "shown_world =
     \<lparr>page = \<lparr>step = 10, answers = example_answers, globalRec = Some example_global,
               localRec = Some example_local, message = [], isSubmitting = False,
               showResults = True\<rparr>,
      in_flight = [],
      shown_for = Some (recommendations_request (buildQuery example_answers))\<rparr>"

text \<open>
  The user picks another option of the last question while the request is in flight,
  and then the response arrives.
\<close>

definition late_events :: "event list" where
  "late_events =
     quiz_events @
     [UpdateAnswer (js ''The romance''),
      Settle 0 (Resolved (Some example_global) (Some example_local))]"

definition late_world :: world where
  "late_world =
     \<lparr>page = \<lparr>step = 10, answers = example_answers[10 := js ''The romance''],
               globalRec = Some example_global, localRec = Some example_local,
               message = [], isSubmitting = False, showResults = True\<rparr>,
      in_flight = [],
      shown_for = Some (recommendations_request (buildQuery example_answers))\<rparr>"

text \<open>Only the first and the third question answered.\<close>

definition sparse_answers :: "jsstring list" where
  "sparse_answers = [js '' a '', [], js ''b'', [], [], [], [], [], [], [], []]"

definition example_store :: review_store where
  "example_store =
     \<lparr>rows = [\<lparr>sr_id = 1, sr_author = js ''A. Lee'', sr_title = js ''Quiet Nights'',
                sr_content = js ''a slow, melancholic literary drama'', sr_score = 8,
                sr_cover_image = None, sr_created_at = 0\<rparr>],
      next_id = 2\<rparr>"





section \<open>Basic facts\<close>

lemma length_QUESTIONS: "length QUESTIONS = 11"
  by (simp add: QUESTIONS_def)

lemma upt_11: "[0 ..< 11] = [0, 1, 2, 3, 4, 5, 6, 7, 8, 9, 10]"
  by (simp add: upt_rec)

subsection \<open>Trimming\<close>

lemma trim_decompose:
  "s = takeWhile is_whitespace s @ trim s @
       rev (takeWhile is_whitespace (rev (dropWhile is_whitespace s)))"
proof -
  let ?d = "dropWhile is_whitespace s"
  have "rev ?d = takeWhile is_whitespace (rev ?d) @ dropWhile is_whitespace (rev ?d)"
    by simp
  then have "?d = rev (dropWhile is_whitespace (rev ?d)) @ rev (takeWhile is_whitespace (rev ?d))"
    by (metis rev_append rev_rev_ident)
  then have "?d = trim s @ rev (takeWhile is_whitespace (rev ?d))"
    by (simp add: trim_def)
  moreover have "s = takeWhile is_whitespace s @ ?d"
    by simp
  ultimately show ?thesis
    by metis
qed

lemma trim_surrounded:
  "\<exists>pre suf. s = pre @ trim s @ suf \<and> list_all is_whitespace pre \<and> list_all is_whitespace suf"
proof -
  have "list_all is_whitespace (takeWhile is_whitespace s)"
    by (simp add: list_all_iff) (meson set_takeWhileD)
  moreover have "list_all is_whitespace
      (rev (takeWhile is_whitespace (rev (dropWhile is_whitespace s))))"
    by (simp add: list_all_iff) (meson set_takeWhileD)
  ultimately show ?thesis
    using trim_decompose [of s] by blast
qed

lemma trim_hd: "trim s \<noteq> [] \<Longrightarrow> \<not> is_whitespace (hd (trim s))"
proof -
  assume ne: "trim s \<noteq> []"
  let ?d = "dropWhile is_whitespace s"
  let ?e = "dropWhile is_whitespace (rev ?d)"
  from ne have dne: "?d \<noteq> []"
    unfolding trim_def by fastforce
  then have hd_d: "\<not> is_whitespace (hd ?d)"
    by (simp add: hd_dropWhile)
  from ne have ene: "?e \<noteq> []" by (simp add: trim_def)
  have "rev ?d = takeWhile is_whitespace (rev ?d) @ ?e" by simp
  then have "?d = rev ?e @ rev (takeWhile is_whitespace (rev ?d))"
    by (metis rev_append rev_rev_ident)
  then have "hd ?d = hd (rev ?e)"
    using ene by (metis hd_append2 rev_is_Nil_conv)
  with hd_d show ?thesis by (simp add: trim_def)
qed

lemma trim_last: "trim s \<noteq> [] \<Longrightarrow> \<not> is_whitespace (last (trim s))"
proof -
  assume ne: "trim s \<noteq> []"
  let ?e = "dropWhile is_whitespace (rev (dropWhile is_whitespace s))"
  from ne have ene: "?e \<noteq> []" by (simp add: trim_def)
  then have "\<not> is_whitespace (hd ?e)" by (simp add: hd_dropWhile)
  moreover have "last (rev ?e) = hd ?e" using ene by (simp add: last_rev)
  ultimately show ?thesis by (simp add: trim_def)
qed

lemma trim_unique:
  assumes "s = pre @ t @ suf" "list_all is_whitespace pre" "list_all is_whitespace suf"
    and "t = [] \<or> (\<not> is_whitespace (hd t) \<and> \<not> is_whitespace (last t))"
  shows "trim s = t"
proof (cases "t = []")
  case True
  with assms have "\<forall>c\<in>set s. is_whitespace c" by (auto simp: list_all_iff)
  then have e: "dropWhile is_whitespace s = []" by simp
  show ?thesis unfolding trim_def e using True by simp
next
  case False
  with assms(4) have h: "\<not> is_whitespace (hd t)" and l: "\<not> is_whitespace (last t)" by auto
  from assms(2) have p: "\<forall>c\<in>set pre. is_whitespace c" by (simp add: list_all_iff)
  from assms(3) have q: "\<forall>c\<in>set (rev suf). is_whitespace c" by (simp add: list_all_iff)
  from False h have "dropWhile is_whitespace (t @ suf) = t @ suf"
    by (cases t) auto
  with p have d: "dropWhile is_whitespace s = t @ suf"
    by (simp add: assms(1) dropWhile_append2)
  from False l have "dropWhile is_whitespace (rev t) = rev t"
    by (cases "rev t") (auto simp: last_rev [symmetric] hd_rev)
  moreover have "dropWhile is_whitespace (rev suf @ rev t) = dropWhile is_whitespace (rev t)"
    using q by (intro dropWhile_append2) simp
  ultimately have "dropWhile is_whitespace (rev suf @ rev t) = rev t"
    by simp
  with d show ?thesis by (simp add: trim_def)
qed


lemma trim_Nil [simp]: "trim [] = []"
  by (simp add: trim_def)

lemma trim_characterised:
  "((\<exists>pre suf. s = pre @ t @ suf \<and> list_all is_whitespace pre \<and> list_all is_whitespace suf) \<and>
    (t = [] \<or> (\<not> is_whitespace (hd t) \<and> \<not> is_whitespace (last t)))) \<longleftrightarrow> t = trim s"
proof
  assume "(\<exists>pre suf. s = pre @ t @ suf \<and> list_all is_whitespace pre \<and> list_all is_whitespace suf) \<and>
    (t = [] \<or> (\<not> is_whitespace (hd t) \<and> \<not> is_whitespace (last t)))"
  then show "t = trim s"
    using trim_unique [of s _ t] by metis
next
  assume "t = trim s"
  then show "(\<exists>pre suf. s = pre @ t @ suf \<and> list_all is_whitespace pre \<and> list_all is_whitespace suf) \<and>
    (t = [] \<or> (\<not> is_whitespace (hd t) \<and> \<not> is_whitespace (last t)))"
    using trim_surrounded [of s] trim_hd [of s] trim_last [of s] by auto
qed

subsection \<open>String literals\<close>

lemma js_Cons_not_Nil: "js (c # cs) \<noteq> []"
  by (simp add: js_def)

lemma hd_js: "hd (js (c # cs)) = of_char c"
  by (simp add: js_def)

lemma js_append: "js a @ js b = js (a @ b)"
  by (simp add: js_def)

lemma of_char_unit_inject: "(of_char c :: code_unit) = of_char d \<longleftrightarrow> c = d"
proof
  assume "(of_char c :: code_unit) = of_char d"
  then have "(of_nat (of_char c) :: code_unit) = of_nat (of_char d)"
    by (simp only: of_nat_of_char)
  then have "unat (of_nat (of_char c) :: code_unit) = unat (of_nat (of_char d) :: code_unit)"
    by simp
  moreover have "(of_char c :: nat) < 2 ^ 16" "(of_char d :: nat) < 2 ^ 16"
    by (rule less_trans [OF nat_of_char_less_256], simp)+
  ultimately have "(of_char c :: nat) = of_char d"
    by (simp add: unat_of_nat)
  then show "c = d"
    by simp
qed simp

lemma js_eq_iff: "js a = js b \<longleftrightarrow> a = b"
proof -
  have "inj (of_char :: char \<Rightarrow> code_unit)"
    by (rule injI) (simp add: of_char_unit_inject)
  then show ?thesis
    by (simp add: js_def inj_map_eq_map)
qed

lemma trim_js_keep:
  "\<not> is_whitespace (of_char c) \<Longrightarrow> \<not> is_whitespace (of_char (last (c # cs))) \<Longrightarrow>
   trim (js (c # cs)) = js (c # cs)"
proof -
  assume h: "\<not> is_whitespace (of_char c)" and l: "\<not> is_whitespace (of_char (last (c # cs)))"
  have "last (js (c # cs)) = of_char (last (c # cs))"
    unfolding js_def by (rule last_map) simp
  with h l show ?thesis
    using trim_unique [of "js (c # cs)" "[]" "js (c # cs)" "[]"]
    by (simp add: hd_js js_Cons_not_Nil)
qed

lemma trim_Dune: "trim (js '' Dune '') = js ''Dune''"
  by (simp add: trim_def js_def is_whitespace_def)

lemma trim_a: "trim (js '' a '') = js ''a''"
  by (simp add: trim_def js_def is_whitespace_def)

lemma trim_b: "trim (js ''b'') = js ''b''"
  by (simp add: trim_def js_def is_whitespace_def)

lemma trim_blank: "trim (js ''  '') = []"
  by (simp add: trim_def js_def is_whitespace_def)

section \<open>Submitting a review\<close>

subsection \<open>Required fields\<close>

lemma handleSubmit_blank:
  "trim (author s) = [] \<or> trim (title s) = [] \<or> trim (content s) = [] \<Longrightarrow>
   handleSubmit s = (s\<lparr>blog_message := FILL_IN_MESSAGE\<rparr>, NoRequest)"
  by (simp add: handleSubmit_def Let_def)

lemma handleSubmit_filled:
  "trim (author s) \<noteq> [] \<Longrightarrow> trim (title s) \<noteq> [] \<Longrightarrow> trim (content s) \<noteq> [] \<Longrightarrow>
   handleSubmit s =
     (s\<lparr>blog_message := []\<rparr>,
      (let p = \<lparr>p_author = trim (author s), p_title = trim (title s),
                p_content = trim (content s), p_score = json_number (parseInt (score s)), p_image = None\<rparr>
       in case imageFile s of Some f \<Rightarrow> ReadAsDataURL f p | None \<Rightarrow> Fetch (sendData p None)))"
  by (simp add: handleSubmit_def Let_def split: option.splits)

lemma sendData_request:
  "\<exists>p'. sendData p i = \<lparr>req_method = POST, endpoint = ReviewsPath, headers = JSON_HEADERS,
                          body = Some (ReviewBody p')\<rparr> \<and>
        p_author p' = p_author p \<and> p_title p' = p_title p \<and> p_content p' = p_content p \<and>
        p_score p' = p_score p"
  by (simp add: sendData_def split: option.splits)

lemma posted_filled:
  assumes "trim (author s) \<noteq> []" "trim (title s) \<noteq> []" "trim (content s) \<noteq> []"
  shows "\<exists>p. posted (snd (handleSubmit s)) result =
             Some \<lparr>req_method = POST, endpoint = ReviewsPath, headers = JSON_HEADERS,
                   body = Some (ReviewBody p)\<rparr> \<and>
           p_author p = trim (author s) \<and> p_title p = trim (title s) \<and>
           p_content p = trim (content s) \<and> p_score p = json_number (parseInt (score s))"
proof (cases "imageFile s")
  case None
  with assms show ?thesis
    using sendData_request [of "\<lparr>p_author = trim (author s), p_title = trim (title s),
                p_content = trim (content s), p_score = json_number (parseInt (score s)), p_image = None\<rparr>" None]
    by (simp add: handleSubmit_filled posted_def Let_def)
next
  case (Some f)
  with assms show ?thesis
    using sendData_request [of "\<lparr>p_author = trim (author s), p_title = trim (title s),
                p_content = trim (content s), p_score = json_number (parseInt (score s)), p_image = None\<rparr>" result]
    by (simp add: handleSubmit_filled posted_def onloadend_def Let_def)
qed

lemma posted_blank:
  "trim (author s) = [] \<or> trim (title s) = [] \<or> trim (content s) = [] \<Longrightarrow>
   posted (snd (handleSubmit s)) result = None"
  by (simp add: handleSubmit_blank posted_def)




subsection \<open>Trimmed fields\<close>

text \<open>
  Claim C6. In every request \<open>handleSubmit\<close> ends in, the author, the title and the
  content of the payload are the form values with the leading and trailing white space
  removed: each form value is white space, then the payload field, then white space,
  and the payload field neither starts nor ends with white space.
\<close>

theorem submitted_fields_trimmed:
  assumes "posted (snd (handleSubmit s)) result = Some r"
  shows "\<exists>p. body r = Some (ReviewBody p) \<and>
           p_author p = trim (author s) \<and> p_title p = trim (title s) \<and>
           p_content p = trim (content s) \<and>
           (\<exists>pre suf. author s = pre @ p_author p @ suf \<and>
              list_all is_whitespace pre \<and> list_all is_whitespace suf) \<and>
           (\<exists>pre suf. title s = pre @ p_title p @ suf \<and>
              list_all is_whitespace pre \<and> list_all is_whitespace suf) \<and>
           (\<exists>pre suf. content s = pre @ p_content p @ suf \<and>
              list_all is_whitespace pre \<and> list_all is_whitespace suf) \<and>
           \<not> is_whitespace (hd (p_author p)) \<and> \<not> is_whitespace (last (p_author p)) \<and>
           \<not> is_whitespace (hd (p_title p)) \<and> \<not> is_whitespace (last (p_title p)) \<and>
           \<not> is_whitespace (hd (p_content p)) \<and> \<not> is_whitespace (last (p_content p))"
proof -
  have filled: "trim (author s) \<noteq> [] \<and> trim (title s) \<noteq> [] \<and> trim (content s) \<noteq> []"
    using assms posted_blank [of s result] by fastforce
  then obtain p where p: "posted (snd (handleSubmit s)) result =
             Some \<lparr>req_method = POST, endpoint = ReviewsPath, headers = JSON_HEADERS,
                   body = Some (ReviewBody p)\<rparr>"
    and a: "p_author p = trim (author s)" and t: "p_title p = trim (title s)"
    and c: "p_content p = trim (content s)"
    using posted_filled [of s result] by blast
  from p assms have "body r = Some (ReviewBody p)"
    by auto
  moreover note a t c
  moreover have "\<exists>pre suf. author s = pre @ p_author p @ suf \<and>
              list_all is_whitespace pre \<and> list_all is_whitespace suf"
    unfolding a by (rule trim_surrounded)
  moreover have "\<exists>pre suf. title s = pre @ p_title p @ suf \<and>
              list_all is_whitespace pre \<and> list_all is_whitespace suf"
    unfolding t by (rule trim_surrounded)
  moreover have "\<exists>pre suf. content s = pre @ p_content p @ suf \<and>
              list_all is_whitespace pre \<and> list_all is_whitespace suf"
    unfolding c by (rule trim_surrounded)
  moreover have "\<not> is_whitespace (hd (p_author p))" "\<not> is_whitespace (last (p_author p))"
    "\<not> is_whitespace (hd (p_title p))" "\<not> is_whitespace (last (p_title p))"
    "\<not> is_whitespace (hd (p_content p))" "\<not> is_whitespace (last (p_content p))"
    unfolding a t c using filled by (simp_all add: trim_hd trim_last)
  ultimately show ?thesis
    by blast
qed

text \<open>
  The form values \<open>" Frank Herbert "\<close>, \<open>"Dune"\<close> and \<open>"  A desert epic."\<close> are sent
  as \<open>"Frank Herbert"\<close>, \<open>"Dune"\<close> and \<open>"A desert epic."\<close>.
\<close>

theorem submitted_fields_trimmed_witness:
  "\<exists>r p. posted (snd (handleSubmit example_form)) None = Some r \<and>
     body r = Some (ReviewBody p) \<and> p_author p = js ''Frank Herbert'' \<and>
     p_title p = js ''Dune'' \<and> p_content p = js ''A desert epic.''"
proof -
  have t: "trim (author example_form) = js ''Frank Herbert''"
    "trim (title example_form) = js ''Dune''"
    "trim (content example_form) = js ''A desert epic.''"
    by (simp_all add: example_form_def trim_def js_def is_whitespace_def)
  have "posted (snd (handleSubmit example_form)) None \<noteq> None"
    using t by (simp add: handleSubmit_def posted_def Let_def example_form_def js_def)
  then obtain r where r: "posted (snd (handleSubmit example_form)) None = Some r"
    by blast
  from submitted_fields_trimmed [OF r] t r show ?thesis
    by auto
qed

subsection \<open>The score\<close>



lemma bit_length_one: "bit_length (Suc 0) = Suc 0"
  by (simp add: bit_length.simps [of "Suc 0"] bit_length.simps [of 0])

lemma bit_length_numeral:
  "bit_length (numeral (Num.Bit0 k)) = Suc (bit_length (numeral k))"
  "bit_length (numeral (Num.Bit1 k)) = Suc (bit_length (numeral k))"
  by (simp_all add: bit_length.simps [of "numeral (Num.Bit0 k)"]
      bit_length.simps [of "numeral (Num.Bit1 k)"] numeral_Bit0_div_2 numeral_Bit1_div_2)





text \<open>Past \<open>2^53\<close> the integer read is rounded to a double.\<close>

lemma parseInt_rounds: "parseInt10 (js ''9007199254740993'') = Num 9007199254740992"
  by (simp add: parseInt10_def js_def is_whitespace_def is_digit_def Let_def
      number_value_def nearest_double_def bit_length_numeral bit_length_one)

lemma bit_length_bounds:
  "n \<noteq> 0 \<Longrightarrow> 2 ^ (bit_length n - 1) \<le> n \<and> n < 2 ^ bit_length n"
proof (induction n rule: bit_length.induct)
  case (1 n)
  show ?case
  proof (cases "n div 2 = 0")
    case True
    with "1.prems" have "n = 1" by presburger
    then show ?thesis
      by (simp add: bit_length_one)
  next
    case False
    with "1.IH" "1.prems" have ih: "2 ^ (bit_length (n div 2) - 1) \<le> n div 2"
      "n div 2 < 2 ^ bit_length (n div 2)"
      by simp_all
    from False have p: "0 < bit_length (n div 2)"
      by (simp add: bit_length.simps [of "n div 2"])
    have b: "bit_length n = Suc (bit_length (n div 2))"
      using "1.prems" by (simp add: bit_length.simps [of n])
    from p have "(2::nat) ^ bit_length (n div 2) = 2 * 2 ^ (bit_length (n div 2) - 1)"
      by (cases "bit_length (n div 2)") simp_all
    with ih(1) have "2 ^ bit_length (n div 2) \<le> n"
      by presburger
    moreover from ih(2) have "n < 2 * 2 ^ bit_length (n div 2)"
      by presburger
    ultimately show ?thesis
      by (simp add: b)
  qed
qed

lemma nearest_double_overflow:
  assumes "2 ^ 1024 \<le> n"
  shows "nearest_double n = None"
proof -
  let ?e = "bit_length n - 53"
  let ?q = "n div 2 ^ ?e"
  have n0: "n \<noteq> 0" using assms by auto
  have big: "\<not> n < 2 ^ 53"
  proof -
    have "(2::nat) ^ 53 \<le> 2 ^ 1024" by (rule power_increasing) simp_all
    with assms show ?thesis by linarith
  qed
  from bit_length_bounds [OF n0] have lo: "2 ^ (bit_length n - 1) \<le> n"
    and hi: "n < 2 ^ bit_length n" by simp_all
  from assms hi have lt: "(2::nat) ^ 1024 < 2 ^ bit_length n" by linarith
  have "(1::nat) < 2" by simp
  from power_less_imp_less_exp [OF this lt] have bl: "1024 < bit_length n" .
  then have split: "bit_length n - 1 = 52 + ?e" by simp
  from lo have "2 ^ (52 + ?e) \<le> n"
    by (simp only: split)
  then have le: "2 ^ 52 * 2 ^ ?e \<le> n"
    by (simp only: power_add)
  have "2 ^ 52 \<le> ?q"
    using le by (simp only: less_eq_div_iff_mult_less_eq zero_less_power zero_less_numeral)
  then have "2 ^ 52 * 2 ^ ?e \<le> ?q * 2 ^ ?e"
    by (rule mult_le_mono1)
  then have q: "2 ^ (52 + ?e) \<le> ?q * 2 ^ ?e"
    by (simp only: power_add)
  have "1024 \<le> 52 + ?e"
    using bl by simp
  then have "(2::nat) ^ 1024 \<le> 2 ^ (52 + ?e)"
    by (rule power_increasing) simp
  from this q have 1: "2 ^ 1024 \<le> ?q * 2 ^ ?e"
    by (rule order_trans)
  have "?q * 2 ^ ?e \<le> (?q + 1) * 2 ^ ?e"
    by (rule mult_le_mono1) simp
  with 1 have 2: "2 ^ 1024 \<le> (?q + 1) * 2 ^ ?e"
    by (rule order_trans)
  from 1 2 have "\<not> (if 2 ^ (?e - 1) < n mod 2 ^ ?e \<or> (n mod 2 ^ ?e = 2 ^ (?e - 1) \<and> odd ?q)
      then ?q + 1 else ?q) * 2 ^ ?e < 2 ^ 1024"
    by (simp only: not_less simp_thms split: if_split)
  with big show ?thesis
    by (simp only: nearest_double_def Let_def if_False)

qed

text \<open>An integer of \<open>2^1024\<close> or more is read as an infinity and posted as \<open>null\<close>.\<close>

lemma overflow_posted_null:
  "2 ^ 1024 \<le> n \<Longrightarrow> json_number (number_value negative n) = None"
  by (simp only: number_value_def nearest_double_overflow json_number_def option.case
      js_number.case split: if_split) simp




section \<open>Deleting a review\<close>

text \<open>
  Claim C7. \<open>handleDelete\<close> sends nothing and leaves the page (its review list
  included) as it is when the prompt is cancelled, when the passcode is empty, or when
  the confirmation is declined. Otherwise it sends one \<open>DELETE\<close> request for the
  review, with the passcode in the header \<open>X-Delete-Passcode\<close> and no body.
\<close>

theorem delete_needs_passcode_and_confirmation:
  "(prompted = None \<or> prompted = Some [] \<or> \<not> confirmed \<longrightarrow>
      handleDelete reviewId prompted confirmed s = (s, None)) \<and>
   (\<forall>passcode. prompted = Some passcode \<and> passcode \<noteq> [] \<and> confirmed \<longrightarrow>
      handleDelete reviewId prompted confirmed s =
        (s, Some \<lparr>req_method = DELETE, endpoint = ReviewPath reviewId,
                  headers = [(js ''X-Delete-Passcode'', passcode)], body = None\<rparr>))"
  by (auto simp: handleDelete_def split: option.splits)

text \<open>
  The four cases on a page with one review: cancelled, empty, declined, and the request
  that carries the passcode.
\<close>

theorem delete_needs_passcode_and_confirmation_witness:
  "handleDelete 7 None True example_feed = (example_feed, None) \<and>
   handleDelete 7 (Some []) True example_feed = (example_feed, None) \<and>
   handleDelete 7 (Some (js ''open sesame'')) False example_feed = (example_feed, None) \<and>
   handleDelete 7 (Some (js ''open sesame'')) True example_feed =
     (example_feed, Some \<lparr>req_method = DELETE, endpoint = ReviewPath 7,
        headers = [(js ''X-Delete-Passcode'', js ''open sesame'')], body = None\<rparr>)"
proof -
  have n: "js ''open sesame'' \<noteq> []"
    by (simp add: js_def)
  show ?thesis
    using n delete_needs_passcode_and_confirmation [of None True 7 example_feed]
      delete_needs_passcode_and_confirmation [of "Some []" True 7 example_feed]
      delete_needs_passcode_and_confirmation [of "Some (js ''open sesame'')" False 7 example_feed]
      delete_needs_passcode_and_confirmation [of "Some (js ''open sesame'')" True 7 example_feed]
    by blast
qed

section \<open>The query of the quiz\<close>

lemma parts_answered:
  "filter (\<lambda>s. s \<noteq> []) (map (query_part ans) zs) =
   map (\<lambda>qi. prompt (fst qi) @ js '' '' @ trim (answer_at ans (snd qi)))
     (filter (\<lambda>qi. trim (answer_at ans (snd qi)) \<noteq> []) zs)"
  by (induction zs) (simp_all add: query_part_def Let_def js_Cons_not_Nil)

lemma buildQuery_described: "buildQuery ans = described_query ans"
  by (simp add: buildQuery_def described_query_def answered_def parts_answered)

lemma join_Nil_iff:
  "\<forall>x\<in>set xs. x \<noteq> [] \<Longrightarrow> join sep xs = [] \<longleftrightarrow> xs = []"
  by (induction sep xs rule: join.induct) simp_all


lemma set_zip_index: "set (zip xs [0 ..< length xs]) = {(xs ! i, i) | i. i < length xs}"
  by (auto simp: set_zip)

lemma answered_Nil_iff:
  "answered ans = [] \<longleftrightarrow> (\<forall>i<length QUESTIONS. trim (answer_at ans i) = [])"
  by (auto simp: answered_def filter_empty_conv set_zip_index)

lemma buildQuery_Nil_iff:
  "buildQuery ans = [] \<longleftrightarrow> (\<forall>i<length QUESTIONS. trim (answer_at ans i) = [])"
proof -
  have "\<forall>x\<in>set (map (\<lambda>qi. prompt (fst qi) @ js '' '' @ trim (answer_at ans (snd qi)))
      (answered ans)). x \<noteq> []"
    by (simp add: js_Cons_not_Nil)
  then have "described_query ans = [] \<longleftrightarrow> answered ans = []"
    unfolding described_query_def by (simp add: join_Nil_iff)
  then show ?thesis
    by (simp add: buildQuery_described answered_Nil_iff)
qed

subsection \<open>A query that is not empty is not blank\<close>

lemma prompts:
  "map prompt QUESTIONS =
    [js ''What would you find most enjoyable in a book?'',
     js ''Given the chance, how would you choose to spend your holidays this year?'',
     js ''Who would be the first name on the invitation to your fantasy dinner party?'',
     js ''What did you resolve to change this year?'',
     js ''Which type of writing most appeals to you?'',
     js ''Do you prefer fiction or nonfiction?'',
     js ''Which fiction genre are you looking to read next?'',
     js ''Tell us the title of the last book you loved'',
     js ''Do you prefer long reads or short books?'',
     js ''Do you like classic or contemporary fiction?'',
     js ''When reading you care most about:'']"
  by (simp add: QUESTIONS_def)




subsection \<open>The query of given answers\<close>

lemma buildQuery_prompts:
  "buildQuery ans =
     join (js '' . '')
       (filter (\<lambda>s. s \<noteq> [])
          (map (\<lambda>pi. if trim (answer_at ans (snd pi)) = [] then []
                       else fst pi @ js '' '' @ trim (answer_at ans (snd pi)))
             (zip (map prompt QUESTIONS) [0 ..< 11])))"
proof -
  have "map (query_part ans) (zip QUESTIONS [0 ..< length QUESTIONS]) =
    map (\<lambda>pi. if trim (answer_at ans (snd pi)) = [] then []
                else fst pi @ js '' '' @ trim (answer_at ans (snd pi)))
      (zip (map prompt QUESTIONS) [0 ..< length QUESTIONS])"
    by (simp add: zip_map1 query_part_def Let_def case_prod_unfold)
  then show ?thesis
    by (simp add: buildQuery_def length_QUESTIONS)
qed

text \<open>
  Claim C8. \<open>buildQuery\<close> is a function of the answers: the query is
  \<open>described_query\<close>, the texts \<open>prompt SPACE trimmed answer\<close> of the questions whose
  answer is not blank after trimming, in question order, joined by \<open>" . "\<close>. It is
  empty exactly when the answer to every question is blank after trimming; for an answer
  array of the length of \<open>QUESTIONS\<close>, as the page keeps it, that is when every answer
  is blank.
\<close>

theorem buildQuery_as_described:
  "buildQuery ans = described_query ans \<and>
   (buildQuery ans = [] \<longleftrightarrow> (\<forall>i<length QUESTIONS. trim (answer_at ans i) = [])) \<and>
   (length ans = length QUESTIONS \<longrightarrow>
      (buildQuery ans = [] \<longleftrightarrow> (\<forall>a\<in>set ans. trim a = [])))"
proof (intro conjI impI)
  show "buildQuery ans = described_query ans"
    by (rule buildQuery_described)
  show "buildQuery ans = [] \<longleftrightarrow> (\<forall>i<length QUESTIONS. trim (answer_at ans i) = [])"
    by (rule buildQuery_Nil_iff)
  assume l: "length ans = length QUESTIONS"
  then have "(\<forall>i<length QUESTIONS. trim (answer_at ans i) = []) \<longleftrightarrow>
    (\<forall>i<length ans. trim (ans ! i) = [])"
    by (simp add: answer_at_def)
  also have "\<dots> \<longleftrightarrow> (\<forall>a\<in>set ans. trim a = [])"
    by (metis in_set_conv_nth)
  finally show "buildQuery ans = [] \<longleftrightarrow> (\<forall>a\<in>set ans. trim a = [])"
    by (simp add: buildQuery_Nil_iff)
qed

text \<open>
  With only the first and the third question answered the query has their two parts;
  eleven blank answers give the empty query; the example answers do not.
\<close>

theorem buildQuery_as_described_witness:
  "described_query sparse_answers =
     js ''What would you find most enjoyable in a book? a . Who would be the first name on the invitation to your fantasy dinner party? b'' \<and>
   buildQuery (replicate 11 (js ''  '')) = [] \<and>
   buildQuery example_answers \<noteq> []"
proof -
  have "buildQuery sparse_answers =
     js ''What would you find most enjoyable in a book? a . Who would be the first name on the invitation to your fantasy dinner party? b''"
    by (simp add: buildQuery_prompts prompts upt_11 answer_at_def sparse_answers_def
        trim_a trim_b js_Cons_not_Nil js_append)
  then have 1: "described_query sparse_answers =
     js ''What would you find most enjoyable in a book? a . Who would be the first name on the invitation to your fantasy dinner party? b''"
    using buildQuery_as_described [of sparse_answers] by simp
  have "length (replicate 11 (js ''  '')) = length QUESTIONS"
    by (simp add: length_QUESTIONS)
  moreover have "\<forall>a\<in>set (replicate 11 (js ''  '')). trim a = []"
    by (simp add: trim_blank)
  ultimately have 2: "buildQuery (replicate 11 (js ''  '')) = []"
    using buildQuery_as_described [of "replicate 11 (js ''  '')"] by blast
  have "(7::nat) < length QUESTIONS" "trim (answer_at example_answers 7) \<noteq> []"
    by (simp_all add: length_QUESTIONS example_answers_def answer_at_def trim_Dune
        js_Cons_not_Nil)
  then have 3: "buildQuery example_answers \<noteq> []"
    using buildQuery_as_described [of example_answers] by blast
  from 1 2 3 show ?thesis
    by simp
qed

section \<open>The quiz page\<close>

subsection \<open>The handlers\<close>

lemma submitRecommendations_busy:
  "isSubmitting s \<Longrightarrow> submitRecommendations s = (s, None)"
  by (simp add: submitRecommendations_def)



lemma goNext_request:
  "snd (goNext s) = Some r \<Longrightarrow>
   \<not> isSubmitting s \<and> isSubmitting (fst (goNext s)) \<and>
   answers (fst (goNext s)) = answers s \<and> \<not> showResults (fst (goNext s)) \<and>
   r = recommendations_request (buildQuery (answers s))"
  by (auto simp: goNext_def submitRecommendations_def Let_def split: if_splits)

lemma goNext_no_request:
  "snd (goNext s) = None \<Longrightarrow>
   isSubmitting (fst (goNext s)) = isSubmitting s \<and> answers (fst (goNext s)) = answers s \<and>
   showResults (fst (goNext s)) = showResults s"
  by (auto simp: goNext_def submitRecommendations_def Let_def split: if_splits)

lemma goBack_keeps:
  "isSubmitting (goBack s) = isSubmitting s" "answers (goBack s) = answers s"
  "showResults (goBack s) = showResults s"
  by (simp_all add: goBack_def)

lemma settled_resolved:
  "settled (Resolved g l) s =
     s\<lparr>globalRec := g, localRec := l, showResults := True, isSubmitting := False\<rparr>"
  by (simp add: settled_def)

lemma question_kind:
  "i < length QUESTIONS \<Longrightarrow>
   (case qtype (QUESTIONS ! i) of Choice x \<Rightarrow> b | Text y \<Rightarrow> a) = (if i = 7 then a else b)"
proof -
  assume "i < length QUESTIONS"
  then have "i \<in> set [0 ..< 11]"
    by (simp add: length_QUESTIONS)
  then show ?thesis
    unfolding upt_11 by (auto simp: QUESTIONS_def)
qed

lemma canProceed_eq:
  "canProceed s =
     (step s < 11 \<and>
      (if step s = 7 then trim (answer_at (answers s) (step s)) \<noteq> []
       else answer_at (answers s) (step s) \<noteq> []))"
  by (simp add: canProceed_def question_kind length_QUESTIONS)

subsection \<open>Runs\<close>

lemma run_append:
  "run (es @ fs) w = (case run es w of None \<Rightarrow> None | Some w' \<Rightarrow> run fs w')"
  by (induction es arbitrary: w) (simp_all split: option.splits)

lemma run_reachable: "reachable w \<Longrightarrow> run es w = Some w' \<Longrightarrow> reachable w'"
proof (induction es arbitrary: w)
  case Nil
  then show ?case by simp
next
  case (Cons e es)
  then show ?case
    by (auto split: option.splits intro: reachable.after)
qed

lemma initial_answers:
  "map (\<lambda>_. []) QUESTIONS = [[], [], [], [], [], [], [], [], [], [], []]"
  by (simp add: QUESTIONS_def)

lemma list_update_numeral:
  "(x # xs)[numeral n := y] = x # xs[pred_numeral n := y]"
  by (simp add: numeral_eq_Suc)

lemma example_query_not_empty: "buildQuery example_answers \<noteq> []"
proof -
  have "trim (answer_at example_answers 7) \<noteq> []"
    by (simp add: example_answers_def answer_at_def trim_Dune js_Cons_not_Nil)
  moreover have "(7::nat) < length QUESTIONS"
    by (simp add: length_QUESTIONS)
  ultimately show ?thesis
    unfolding buildQuery_Nil_iff by blast
qed

lemmas page_steps =
  initial_world_def initial_page_def initial_answers fire_def updateAnswer_def set_index_def
  goNext_def canProceed_eq answer_at_def total_def length_QUESTIONS js_Cons_not_Nil trim_Dune
  list_update_numeral

lemma run_answers: "run (answer_all example_answers) initial_world = Some answered_world"
  by (simp add: example_answers_def answered_world_def page_steps)

lemma fire_submit: "fire GoNext answered_world = Some submitted_world"
  using example_query_not_empty
  by (simp add: answered_world_def submitted_world_def submitRecommendations_def
      example_answers_def page_steps)

lemma run_quiz: "run quiz_events initial_world = Some submitted_world"
  by (simp add: quiz_events_def run_append run_answers fire_submit)

lemma fire_shown:
  "fire (Settle 0 (Resolved (Some example_global) (Some example_local))) submitted_world =
   Some shown_world"
  by (simp add: fire_def submitted_world_def shown_world_def settled_def)

lemma reachable_answered: "reachable answered_world"
  using run_reachable [OF reachable.start run_answers] .

lemma reachable_submitted: "reachable submitted_world"
  using run_reachable [OF reachable.start run_quiz] .

subsection \<open>Blank queries\<close>








subsection \<open>One request in flight\<close>

lemma one_in_flight_fire:
  assumes "one_in_flight w" "fire e w = Some w'"
  shows "one_in_flight w'"
proof (cases e)
  case (UpdateAnswer v)
  with assms show ?thesis
    by (auto simp: fire_def one_in_flight_def updateAnswer_def)
next
  case GoNext
  show ?thesis
  proof (cases "snd (goNext (page w))")
    case None
    with assms GoNext goNext_no_request [of "page w"] show ?thesis
      by (auto simp: fire_def one_in_flight_def)
  next
    case (Some r)
    with assms GoNext goNext_request [of "page w" r] show ?thesis
      by (auto simp: fire_def one_in_flight_def)
  qed
next
  case GoBack
  with assms show ?thesis
    by (auto simp: fire_def one_in_flight_def goBack_keeps)
next
  case (Settle k r)
  with assms have k: "k < length (in_flight w)"
    by (auto simp: fire_def split: if_splits)
  with assms(1) have "k = 0" "length (in_flight w) = 1"
    by (auto simp: one_in_flight_def)
  with assms Settle show ?thesis
    by (auto simp: fire_def one_in_flight_def settled_def split: response.splits)
qed

lemma reachable_one_in_flight: "reachable w \<Longrightarrow> one_in_flight w"
proof (induction rule: reachable.induct)
  case start
  show ?case
    by (simp add: one_in_flight_def initial_world_def initial_page_def)
next
  case (after w e w')
  from after.IH after.hyps(2) show ?case
    by (rule one_in_flight_fire)
qed

lemma busy_until_settled:
  assumes "fire e w = Some w'" "isSubmitting (page w)" "\<not> isSubmitting (page w')"
  shows "\<exists>k r. e = Settle k r"
proof (cases e)
  case (UpdateAnswer v)
  with assms show ?thesis by (auto simp: fire_def updateAnswer_def)
next
  case GoNext
  with assms show ?thesis
    using goNext_no_request [of "page w"] goNext_request [of "page w"]
    by (cases "snd (goNext (page w))") (auto simp: fire_def)
next
  case GoBack
  with assms show ?thesis by (auto simp: fire_def goBack_keeps)
next
  case (Settle k r)
  then show ?thesis by blast
qed

lemma sent_when_idle:
  assumes "fire e w = Some w'" "length (in_flight w) < length (in_flight w')"
  shows "\<not> isSubmitting (page w) \<and> isSubmitting (page w')"
proof (cases e)
  case (UpdateAnswer v)
  with assms show ?thesis by (auto simp: fire_def)
next
  case GoNext
  with assms show ?thesis
    using goNext_request [of "page w"]
    by (cases "snd (goNext (page w))") (auto simp: fire_def)
next
  case GoBack
  with assms show ?thesis by (auto simp: fire_def)
next
  case (Settle k r)
  with assms show ?thesis by (auto simp: fire_def split: if_splits)
qed

text \<open>
  Claim C9. While \<open>isSubmitting\<close> is true \<open>submitRecommendations\<close> returns the page as
  it is and sends nothing; it sends a request only when \<open>isSubmitting\<close> is false, and
  the page it returns with the request has \<open>isSubmitting\<close> true. In every state the
  page reaches from its initial state, by any calls of its handlers and any settling of
  its requests, at most one request is in flight and \<open>isSubmitting\<close> is true exactly
  when one is; a request is sent only when none is in flight; and only the settling of
  a request turns \<open>isSubmitting\<close> from true to false.
\<close>

theorem single_request_in_flight:
  "(isSubmitting s \<longrightarrow> submitRecommendations s = (s, None)) \<and>
   (snd (submitRecommendations s) \<noteq> None \<longrightarrow>
      \<not> isSubmitting s \<and> isSubmitting (fst (submitRecommendations s))) \<and>
   (reachable w \<longrightarrow>
      length (in_flight w) \<le> 1 \<and> (isSubmitting (page w) \<longleftrightarrow> in_flight w \<noteq> [])) \<and>
   (reachable w \<and> fire e w = Some w' \<and> length (in_flight w) < length (in_flight w') \<longrightarrow>
      in_flight w = [] \<and> \<not> isSubmitting (page w) \<and> isSubmitting (page w')) \<and>
   (fire e w = Some w' \<and> isSubmitting (page w) \<and> \<not> isSubmitting (page w') \<longrightarrow>
      (\<exists>k r. e = Settle k r))"
proof (intro conjI impI)
  show "submitRecommendations s = (s, None)" if "isSubmitting s"
    using that by (rule submitRecommendations_busy)
  show "\<not> isSubmitting s" "isSubmitting (fst (submitRecommendations s))"
    if "snd (submitRecommendations s) \<noteq> None"
    using that by (auto simp: submitRecommendations_def Let_def split: if_splits)
  show "length (in_flight w) \<le> 1" "isSubmitting (page w) \<longleftrightarrow> in_flight w \<noteq> []"
    if "reachable w"
    using reachable_one_in_flight [OF that] by (simp_all add: one_in_flight_def)
  show "in_flight w = []" "\<not> isSubmitting (page w)" "isSubmitting (page w')"
    if "reachable w \<and> fire e w = Some w' \<and> length (in_flight w) < length (in_flight w')"
    using that reachable_one_in_flight [of w] sent_when_idle [of e w w']
    by (auto simp: one_in_flight_def)
  show "\<exists>k r. e = Settle k r"
    if "fire e w = Some w' \<and> isSubmitting (page w) \<and> \<not> isSubmitting (page w')"
    using that busy_until_settled by blast
qed

text \<open>
  The answered quiz is reached with nothing in flight; submitting it puts one request
  in flight; submitting again does nothing; the response ends the submission.
\<close>

theorem single_request_in_flight_witness:
  "reachable answered_world \<and> reachable submitted_world \<and>
   fire GoNext answered_world = Some submitted_world \<and>
   in_flight answered_world = [] \<and> length (in_flight submitted_world) = 1 \<and>
   isSubmitting (page submitted_world) \<and>
   submitRecommendations (page submitted_world) = (page submitted_world, None) \<and>
   snd (submitRecommendations (page answered_world)) \<noteq> None \<and>
   isSubmitting (fst (submitRecommendations (page answered_world))) \<and>
   fire (Settle 0 (Resolved (Some example_global) (Some example_local))) submitted_world =
     Some shown_world \<and>
   \<not> isSubmitting (page shown_world)"
proof -
  have 1: "length (in_flight answered_world) < length (in_flight submitted_world)"
    by (simp add: answered_world_def submitted_world_def)
  have 2: "snd (submitRecommendations (page answered_world)) \<noteq> None"
    using example_query_not_empty by (simp add: submitRecommendations_def answered_world_def)
  have 3: "length (in_flight submitted_world) = 1" "\<not> isSubmitting (page shown_world)"
    by (simp_all add: submitted_world_def shown_world_def)
  show ?thesis
    using 1 2 3 reachable_answered reachable_submitted fire_submit fire_shown
      single_request_in_flight [of "page submitted_world" submitted_world
        "Settle 0 (Resolved (Some example_global) (Some example_local))" shown_world]
      single_request_in_flight [of "page answered_world" answered_world GoNext submitted_world]
    by simp
qed

subsection \<open>Results and answers\<close>

lemma updateAnswer_clears:
  "globalRec (updateAnswer v s) = None \<and> localRec (updateAnswer v s) = None \<and>
   \<not> showResults (updateAnswer v s)"
  by (simp add: updateAnswer_def)

lemma late_query_differs:
  "buildQuery example_answers \<noteq> buildQuery (example_answers[10 := js ''The romance''])"
  by (simp add: buildQuery_prompts prompts upt_11 answer_at_def example_answers_def
      trim_js_keep trim_Dune is_whitespace_def js_Cons_not_Nil js_eq_iff list_update_numeral)

lemma run_late: "run late_events initial_world = Some late_world"
proof -
  have "run [UpdateAnswer (js ''The romance''),
             Settle 0 (Resolved (Some example_global) (Some example_local))] submitted_world =
        Some late_world"
    by (simp add: submitted_world_def late_world_def fire_def updateAnswer_def set_index_def
        settled_def example_answers_def)
  then show ?thesis
    by (simp add: late_events_def run_append run_quiz)
qed

text \<open>
  Claim C10 does not hold of the page. \<open>updateAnswer\<close> clears the recommendations at
  every edit, but the response to a request sent before the edit is still displayed
  when it arrives. In this run from the initial state the quiz is answered and
  submitted, the user picks another option of the last question while the request is in
  flight, and the response arrives: the results are shown, and the request that produced
  them is not the one of the present answers.
\<close>

theorem late_response_shows_old_results:
  "run late_events initial_world = Some late_world \<and>
   showResults (page late_world) \<and>
   globalRec (page late_world) = Some example_global \<and>
   localRec (page late_world) = Some example_local \<and>
   shown_for late_world = Some (recommendations_request (buildQuery example_answers)) \<and>
   answers (page late_world) = example_answers[10 := js ''The romance''] \<and>
   buildQuery (answers (page late_world)) \<noteq> buildQuery example_answers"
proof -
  have "answers (page late_world) = example_answers[10 := js ''The romance'']"
    by (simp add: late_world_def)
  moreover from this have "buildQuery (answers (page late_world)) \<noteq> buildQuery example_answers"
    using late_query_differs by simp
  ultimately show ?thesis
    using run_late by (simp add: late_world_def)
qed

subsection \<open>Too few reviews\<close>

text \<open>
  Claim C4. The engine is modelled from its specification. When the local corpus has
  fewer reviews than the configured minimum, \<open>recommend\<close> either fails because the
  query is empty after trimming, or returns a result whose local side is null; when the
  page receives that result it shows the results with "Sorry our site does not currently
  have enough data for Our Recommendation." in place of a local match.
\<close>

theorem local_side_needs_enough_reviews:
  "length local_corpus < min_reviews \<longrightarrow>
     (case recommend best_global best_local min_reviews local_corpus q of
        Inl e \<Rightarrow> e = EmptyQueryError \<and> trim q = []
      | Inr r \<Rightarrow>
          trim q \<noteq> [] \<and> rec_local r = None \<and>
          localRec (settled (respond r) s) = None \<and>
          (\<exists>v. render_results (settled (respond r) s) = Some v \<and>
               our_part v = NotEnoughData \<and> our_text (our_part v) = NOT_ENOUGH_DATA_TEXT))"
  by (simp add: recommend_def respond_def settled_resolved render_results_def our_text_def)

text \<open>
  One review, a minimum of three, and a ranking that would find a match: the local side
  is null and the page shows the message.
\<close>

theorem local_side_needs_enough_reviews_witness:
  "length (rows example_store) < 3 \<and>
   (\<exists>r v. recommend (\<lambda>_. Some example_global) (\<lambda>_ _. Some example_local) 3
            (rows example_store) (js ''melancholic literary drama'') = Inr r \<and>
      rec_local r = None \<and>
      render_results (settled (respond r) (page submitted_world)) = Some v \<and>
      our_part v = NotEnoughData \<and>
      our_text (our_part v) =
        js ''Sorry our site does not currently have enough data for Our Recommendation.'')"
proof -
  have l: "length (rows example_store) < 3"
    by (simp add: example_store_def)
  have t: "trim (js ''melancholic literary drama'') \<noteq> []"
    by (simp add: trim_def js_def is_whitespace_def)
  then obtain r where r: "recommend (\<lambda>_. Some example_global) (\<lambda>_ _. Some example_local) 3
            (rows example_store) (js ''melancholic literary drama'') = Inr r"
    by (simp add: recommend_def)
  from local_side_needs_enough_reviews [where local_corpus = "rows example_store"
      and min_reviews = 3 and best_global = "\<lambda>_. Some example_global"
      and best_local = "\<lambda>_ _. Some example_local"
      and q = "js ''melancholic literary drama''" and s = "page submitted_world"] l r
  show ?thesis
    by (auto simp: NOT_ENOUGH_DATA_TEXT_def)
qed

end
